theory Spec2Isabelle
  imports Complex_Main
begin

section \<open>Python values, errors and strings\<close>

text \<open>
  The development embeds the documentary generator: \<^verbatim>\<open>processors/experiment_tracker.py\<close>
  (the run state), \<^verbatim>\<open>processors/document_processor.py\<close> (the segmenter),
  \<^verbatim>\<open>processors/image_generator.py\<close>, \<^verbatim>\<open>processors/audio_generator.py\<close>,
  \<^verbatim>\<open>processors/video_generator.py\<close> and the orchestrating loop of \<^verbatim>\<open>main.py\<close>.

  Conventions. A Python \<^verbatim>\<open>str\<close> is a \<open>string\<close>, one \<open>char\<close> per code point, so the
  model covers the code points below 256. An exception is a value of type \<open>error\<close> and a
  function that may raise returns \<open>error + 'a\<close>, with \<open>Inl\<close> for the raise. Values that
  Python types as \<^verbatim>\<open>Any\<close> and hands to \<^verbatim>\<open>json.dump\<close> are values of \<open>pyval\<close>; a Python
  \<^verbatim>\<open>float\<close> is carried as a real number, and no arithmetic is done on it.
\<close>

datatype pyval =
    PyNone
  | PyBool bool
  | PyInt int
  | PyFloat real
  | PyStr string
  | PyList "pyval list"
  | PyDict "(string \<times> pyval) list"

text \<open>Python's truth value of an object, as \<^verbatim>\<open>bool(x)\<close> and \<^verbatim>\<open>if x:\<close> compute it.\<close>

fun truthy :: "pyval \<Rightarrow> bool" where
  "truthy PyNone = False"
| "truthy (PyBool b) = b"
| "truthy (PyInt i) = (i \<noteq> 0)"
| "truthy (PyFloat r) = (r \<noteq> 0)"
| "truthy (PyStr s) = (s \<noteq> [])"
| "truthy (PyList xs) = (xs \<noteq> [])"
| "truthy (PyDict kvs) = (kvs \<noteq> [])"

text \<open>\<^verbatim>\<open>d.get(key, default)\<close> on a dict held as an association list with distinct keys.\<close>

definition dict_get :: "(string \<times> pyval) list \<Rightarrow> string \<Rightarrow> pyval \<Rightarrow> pyval" where
  "dict_get d k dflt = (case map_of d k of None \<Rightarrow> dflt | Some v \<Rightarrow> v)"

text \<open>
  The exceptions that occur. Each carries the text that \<^verbatim>\<open>str(e)\<close> returns. \<open>OSError\<close>
  stands for any failure raised by the environment (file system, network, a service).
\<close>

datatype error =
    Exception string
  | TypeError string
  | IndexError string
  | UnicodeDecodeError string
  | UnboundLocalError string
  | OpenAIError string
  | OSError string

fun py_str :: "error \<Rightarrow> string" where
  "py_str (Exception m) = m"
| "py_str (TypeError m) = m"
| "py_str (IndexError m) = m"
| "py_str (UnicodeDecodeError m) = m"
| "py_str (UnboundLocalError m) = m"
| "py_str (OpenAIError m) = m"
| "py_str (OSError m) = m"

text \<open>Decimal rendering of an integer, as an f-string \<^verbatim>\<open>{i}\<close> renders it.\<close>

definition digit_char :: "nat \<Rightarrow> char" where
  "digit_char d = char_of (48 + d)"

fun str_nat :: "nat \<Rightarrow> string" where
  "str_nat n = (if n < 10 then [digit_char n] else str_nat (n div 10) @ [digit_char (n mod 10)])"

declare str_nat.simps [simp del]

definition str_int :: "int \<Rightarrow> string" where
  "str_int i = (if i < 0 then CHR ''-'' # str_nat (nat (- i)) else str_nat (nat i))"

text \<open>
  Python list indexing \<^verbatim>\<open>xs[i]\<close>: an index from \<open>- len\<close> to \<open>len - 1\<close> is valid, a negative
  one counts from the end, and any other index raises \<^verbatim>\<open>IndexError\<close>. \<open>list_pos\<close> is the
  position an index refers to.
\<close>

definition list_pos :: "'a list \<Rightarrow> int \<Rightarrow> error + nat" where
  "list_pos xs i =
     (if 0 \<le> i \<and> i < int (length xs) then Inr (nat i)
      else if i < 0 \<and> - int (length xs) \<le> i then Inr (nat (int (length xs) + i))
      else Inl (IndexError ''list index out of range''))"

section \<open>The run state: \<^verbatim>\<open>processors/experiment_tracker.py\<close>\<close>

text \<open>The dataclass \<^verbatim>\<open>DocumentarySegment\<close>. The field \<^verbatim>\<open>text\<close> is named \<open>seg_text\<close>.\<close>

record DocumentarySegment =
  seg_text :: string
  prompt :: string
  image_path :: "string option"
  audio_path :: "string option"
  video_path :: "string option"
  feedback :: "(string \<times> pyval) list option"
  metrics :: "(string \<times> real) list option"

text \<open>
  The attributes of an \<^verbatim>\<open>ExperimentTracker\<close> object. \<open>wandb\<close> tells whether a W&B run is
  attached (\<^verbatim>\<open>self.wandb\<close> is not \<^verbatim>\<open>None\<close>).
\<close>

record ExperimentTracker =
  project_name :: string
  segments :: "DocumentarySegment list"
  run_id :: string
  has_error :: bool
  wandb :: bool
  storage_dir :: string

text \<open>
  What the tracker writes outside the object: the three files of its storage directory
  (\<open>None\<close> while a file does not exist, otherwise the JSON document it holds), the events
  handed to the W&B run, and whether that run was finished. Writing a file and calling
  the W&B run are taken to return normally.
\<close>

record storage =
  state_json :: "pyval option"
  errors_json :: "pyval option"
  metrics_json :: "pyval option"
  wandb_log :: "pyval list"
  wandb_finished :: bool

text \<open>
  \<^verbatim>\<open>__init__\<close>. The arguments beyond the project name are what the environment
  supplies: the clock reading formatted as \<^verbatim>\<open>%Y%m%d_%H%M%S\<close>, and whether
  \<^verbatim>\<open>_init_wandb\<close> obtained a run.
\<close>

definition init :: "string \<Rightarrow> string \<Rightarrow> bool \<Rightarrow> ExperimentTracker" where
  "init name now_id wandb_run =
     \<lparr>project_name = name, segments = [], run_id = now_id, has_error = False,
      wandb = wandb_run, storage_dir = ''experiments/'' @ now_id\<rparr>"

definition opt_str :: "string option \<Rightarrow> pyval" where
  "opt_str p = (case p of None \<Rightarrow> PyNone | Some s \<Rightarrow> PyStr s)"

definition segment_dict :: "DocumentarySegment \<Rightarrow> pyval" where
  "segment_dict s = PyDict
     [(''text'', PyStr (seg_text s)),
      (''prompt'', PyStr (prompt s)),
      (''image_path'', opt_str (image_path s)),
      (''audio_path'', opt_str (audio_path s)),
      (''video_path'', opt_str (video_path s)),
      (''feedback'', (case feedback s of None \<Rightarrow> PyNone | Some fb \<Rightarrow> PyDict fb)),
      (''metrics'', (case metrics s of None \<Rightarrow> PyNone
                                     | Some m \<Rightarrow> PyDict (map (\<lambda>(k, v). (k, PyFloat v)) m)))]"

text \<open>
  \<^verbatim>\<open>_save_local_state\<close> writes \<^verbatim>\<open>state.json\<close>; \<open>now\<close> is the reading of
  \<^verbatim>\<open>datetime.now().isoformat()\<close> taken during the call.
\<close>

definition save_local_state :: "ExperimentTracker \<Rightarrow> string \<Rightarrow> storage \<Rightarrow> storage" where
  "save_local_state tr now st =
     st\<lparr>state_json := Some (PyDict
        [(''run_id'', PyStr (run_id tr)),
         (''timestamp'', PyStr now),
         (''segments'', PyList (map segment_dict (segments tr)))])\<rparr>"

definition wandb_emit :: "ExperimentTracker \<Rightarrow> pyval \<Rightarrow> storage \<Rightarrow> storage" where
  "wandb_emit tr ev st = (if wandb tr then st\<lparr>wandb_log := wandb_log st @ [ev]\<rparr> else st)"

text \<open>\<^verbatim>\<open>start_segment\<close> returns the index of the appended segment.\<close>

definition start_segment ::
  "string \<Rightarrow> string \<Rightarrow> string \<Rightarrow> ExperimentTracker \<times> storage \<Rightarrow> int \<times> ExperimentTracker \<times> storage" where
  "start_segment txt prm now s =
     (let tr = fst s;
          segment = \<lparr>seg_text = txt, prompt = prm, image_path = None, audio_path = None,
                     video_path = None, feedback = None, metrics = None\<rparr>;
          tr' = tr\<lparr>segments := segments tr @ [segment]\<rparr>;
          st1 = save_local_state tr' now (snd s);
          st2 = wandb_emit tr' (PyDict
                  [(''segment_text'', PyStr txt),
                   (''segment_prompt'', PyStr prm),
                   (''segment_number'', PyInt (int (length (segments tr')) - 1))]) st1
      in (int (length (segments tr')) - 1, tr', st2))"

text \<open>
  \<^verbatim>\<open>update_segment\<close>, its body. A path is stored when the argument is truthy: neither
  \<^verbatim>\<open>None\<close> nor the empty string. The events for the image and the audio are built by
  \<^verbatim>\<open>wandb.Image\<close> and \<^verbatim>\<open>wandb.Audio\<close>; the module never binds the name \<^verbatim>\<open>wandb\<close>
  (it is imported inside \<^verbatim>\<open>_init_wandb\<close> only), the lookup raises inside the
  \<^verbatim>\<open>try\<close>, and \<^verbatim>\<open>except Exception: pass\<close> drops it, so that only the video event
  reaches the run.
\<close>

definition truthy_path :: "string option \<Rightarrow> bool" where
  "truthy_path p = (case p of None \<Rightarrow> False | Some s \<Rightarrow> s \<noteq> [])"

definition update_segment ::
  "int \<Rightarrow> string option \<Rightarrow> string option \<Rightarrow> string option \<Rightarrow> string \<Rightarrow>
   ExperimentTracker \<times> storage \<Rightarrow> error + ExperimentTracker \<times> storage" where
  "update_segment segment_idx img aud vid now s =
     (let tr = fst s in
      case list_pos (segments tr) segment_idx of
        Inl e \<Rightarrow> Inl e
      | Inr k \<Rightarrow>
          let segment = segments tr ! k;
              seg1 = (if truthy_path img then segment\<lparr>image_path := img\<rparr> else segment);
              seg2 = (if truthy_path aud then seg1\<lparr>audio_path := aud\<rparr> else seg1);
              seg3 = (if truthy_path vid then seg2\<lparr>video_path := vid\<rparr> else seg2);
              tr' = tr\<lparr>segments := (segments tr)[k := seg3]\<rparr>;
              st1 = (if truthy_path vid
                     then wandb_emit tr' (PyDict
                       [(''segment_'' @ str_int segment_idx @ ''_video'', opt_str vid)]) (snd s)
                     else snd s)
          in Inr (tr', save_local_state tr' now st1))"

text \<open>
  A call of \<^verbatim>\<open>update_segment\<close> with keyword arguments. The signature names
  \<^verbatim>\<open>image_path\<close>, \<^verbatim>\<open>audio_path\<close> and \<^verbatim>\<open>video_path\<close>, each with default \<^verbatim>\<open>None\<close>;
  Python binds the arguments before the body runs and raises \<^verbatim>\<open>TypeError\<close> for a
  keyword the signature does not have.
\<close>

definition update_segment_params :: "string list" where
  "update_segment_params = [''image_path'', ''audio_path'', ''video_path'']"

definition kwarg :: "(string \<times> string option) list \<Rightarrow> string \<Rightarrow> string option" where
  "kwarg kwargs k = (case map_of kwargs k of None \<Rightarrow> None | Some v \<Rightarrow> v)"

definition call_update_segment ::
  "int \<Rightarrow> (string \<times> string option) list \<Rightarrow> string \<Rightarrow>
   ExperimentTracker \<times> storage \<Rightarrow> error + ExperimentTracker \<times> storage" where
  "call_update_segment segment_idx kwargs now s =
     (case filter (\<lambda>k. k \<notin> set update_segment_params) (map fst kwargs) of
        k # _ \<Rightarrow> Inl (TypeError
          (''ExperimentTracker.update_segment() got an unexpected keyword argument '' @
           [CHR 0x27] @ k @ [CHR 0x27]))
      | [] \<Rightarrow> update_segment segment_idx (kwarg kwargs ''image_path'')
                (kwarg kwargs ''audio_path'') (kwarg kwargs ''video_path'') now s)"

text \<open>
  \<^verbatim>\<open>log_error\<close>. \<open>now\<close> is the clock reading stored in the file, \<open>now'\<close> the one sent to
  W&B. An \<^verbatim>\<open>errors.json\<close> that does not hold a list makes \<^verbatim>\<open>errors.append\<close> raise; the
  \<^verbatim>\<open>except\<close> clause reports it and the file stays as it was.
\<close>

definition log_error ::
  "string \<Rightarrow> string \<Rightarrow> string \<Rightarrow> ExperimentTracker \<times> storage \<Rightarrow> ExperimentTracker \<times> storage" where
  "log_error error_message now now' s =
     (let tr' = (fst s)\<lparr>has_error := True\<rparr>;
          error_data = PyDict [(''error'', PyStr error_message), (''timestamp'', PyStr now)];
          st1 = (case errors_json (snd s) of
                   None \<Rightarrow> (snd s)\<lparr>errors_json := Some (PyList [error_data])\<rparr>
                 | Some (PyList errors) \<Rightarrow>
                     (snd s)\<lparr>errors_json := Some (PyList (errors @ [error_data]))\<rparr>
                 | Some _ \<Rightarrow> snd s);
          st2 = wandb_emit tr' (PyDict
                  [(''error'', PyStr error_message), (''error_timestamp'', PyStr now')]) st1
      in (tr', st2))"

definition log_metrics ::
  "(string \<times> real) list \<Rightarrow> ExperimentTracker \<times> storage \<Rightarrow> ExperimentTracker \<times> storage" where
  "log_metrics m s =
     (let d = PyDict (map (\<lambda>(k, v). (k, PyFloat v)) m)
      in (fst s, wandb_emit (fst s) d ((snd s)\<lparr>metrics_json := Some d\<rparr>)))"

text \<open>\<^verbatim>\<open>add_feedback\<close> returns whether the feedback asks for regeneration.\<close>

definition add_feedback ::
  "int \<Rightarrow> (string \<times> pyval) list \<Rightarrow> string \<Rightarrow>
   ExperimentTracker \<times> storage \<Rightarrow> error + bool \<times> ExperimentTracker \<times> storage" where
  "add_feedback segment_idx fb now s =
     (let tr = fst s in
      case list_pos (segments tr) segment_idx of
        Inl e \<Rightarrow> Inl e
      | Inr k \<Rightarrow>
          let tr' = tr\<lparr>segments := (segments tr)[k := (segments tr ! k)\<lparr>feedback := Some fb\<rparr>]\<rparr>;
              st1 = save_local_state tr' now (snd s);
              st2 = wandb_emit tr' (PyDict
                      [(''segment_'' @ str_int segment_idx @ ''_feedback'', PyDict fb)]) st1
          in Inr (truthy (dict_get fb ''needs_regeneration'' (PyBool False)), tr', st2))"

text \<open>
  \<^verbatim>\<open>save_experiment\<close>, the \<^verbatim>\<open>save()\<close> of the run state, and \<^verbatim>\<open>finish\<close>. \<open>now\<close> is the
  clock reading written to \<^verbatim>\<open>state.json\<close>, \<open>now'\<close> the one sent to W&B.
\<close>

definition save_experiment ::
  "string \<Rightarrow> string \<Rightarrow> ExperimentTracker \<times> storage \<Rightarrow> ExperimentTracker \<times> storage" where
  "save_experiment now now' s =
     (let tr = fst s;
          st1 = save_local_state tr now (snd s);
          st2 = wandb_emit tr (PyDict
                  [(''run_id'', PyStr (run_id tr)),
                   (''timestamp'', PyStr now'),
                   (''total_segments'', PyInt (int (length (segments tr)))),
                   (''has_error'', PyBool (has_error tr))]) st1
      in (tr, st2))"

definition cleanup :: "ExperimentTracker \<times> storage \<Rightarrow> ExperimentTracker \<times> storage" where
  "cleanup s = (if wandb (fst s) then (fst s, (snd s)\<lparr>wandb_finished := True\<rparr>) else s)"

definition finish ::
  "string \<Rightarrow> string \<Rightarrow> ExperimentTracker \<times> storage \<Rightarrow> ExperimentTracker \<times> storage" where
  "finish now now' s = cleanup (save_experiment now now' s)"

text \<open>
  The methods a caller can invoke on the tracker, each with the clock readings taken
  during the call, and the state a call leaves behind. \<^verbatim>\<open>update_segment\<close> and
  \<^verbatim>\<open>add_feedback\<close> raise before they assign anything, so a call that raises leaves the
  state as it was.
\<close>

datatype operation =
    StartSegment string string string
  | UpdateSegment int "(string \<times> string option) list" string
  | LogError string string string
  | LogMetrics "(string \<times> real) list"
  | AddFeedback int "(string \<times> pyval) list" string
  | SaveLocalState string
  | SaveExperiment string string
  | Finish string string

fun perform :: "operation \<Rightarrow> ExperimentTracker \<times> storage \<Rightarrow> ExperimentTracker \<times> storage" where
  "perform (StartSegment txt prm now) s = snd (start_segment txt prm now s)"
| "perform (UpdateSegment i kwargs now) s =
     (case call_update_segment i kwargs now s of Inl e \<Rightarrow> s | Inr s' \<Rightarrow> s')"
| "perform (LogError m now now') s = log_error m now now' s"
| "perform (LogMetrics m) s = log_metrics m s"
| "perform (AddFeedback i fb now) s =
     (case add_feedback i fb now s of Inl e \<Rightarrow> s | Inr r \<Rightarrow> snd r)"
| "perform (SaveLocalState now) s = (fst s, save_local_state (fst s) now (snd s))"
| "perform (SaveExperiment now now') s = save_experiment now now' s"
| "perform (Finish now now') s = finish now now' s"

fun is_log_error :: "operation \<Rightarrow> bool" where
  "is_log_error (LogError m now now') = True"
| "is_log_error _ = False"

definition perform_all ::
  "operation list \<Rightarrow> ExperimentTracker \<times> storage \<Rightarrow> ExperimentTracker \<times> storage" where
  "perform_all ops s = fold perform ops s"

text \<open>
  The position of the segment that an operation assigns to, in the state it is applied
  to: \<open>None\<close> for an operation that assigns to no existing segment.
\<close>

fun addressed :: "operation \<Rightarrow> ExperimentTracker \<Rightarrow> nat option" where
  "addressed (UpdateSegment i kwargs now) tr =
     (case list_pos (segments tr) i of Inl e \<Rightarrow> None | Inr k \<Rightarrow> Some k)"
| "addressed (AddFeedback i fb now) tr =
     (case list_pos (segments tr) i of Inl e \<Rightarrow> None | Inr k \<Rightarrow> Some k)"
| "addressed _ tr = None"

text \<open>\<open>elsewhere k ops s\<close>: run from \<open>s\<close>, none of \<open>ops\<close> assigns to the segment at \<open>k\<close>.\<close>

fun elsewhere :: "nat \<Rightarrow> operation list \<Rightarrow> ExperimentTracker \<times> storage \<Rightarrow> bool" where
  "elsewhere k [] s = True"
| "elsewhere k (x # xs) s = (addressed x (fst s) \<noteq> Some k \<and> elsewhere k xs (perform x s))"

text \<open>\<open>start_all\<close> calls \<^verbatim>\<open>start_segment\<close> once per entry and collects the returned indices.\<close>

fun start_all ::
  "(string \<times> string \<times> string) list \<Rightarrow> ExperimentTracker \<times> storage \<Rightarrow>
   int list \<times> ExperimentTracker \<times> storage" where
  "start_all [] s = ([], s)"
| "start_all ((txt, prm, now) # rest) s =
     (let r = start_segment txt prm now s;
          r' = start_all rest (snd r)
      in (fst r # fst r', snd r'))"

text \<open>The durable state of a run: the three files of its storage directory.\<close>

definition durable :: "storage \<Rightarrow> pyval option \<times> pyval option \<times> pyval option" where
  "durable st = (state_json st, errors_json st, metrics_json st)"

section \<open>The services of a run\<close>

text \<open>
  The collaborators outside the program answer differently from call to call, so each is
  a table of outcomes indexed by the number of the call. A client of the completion
  service is such a table: applied to \<open>k\<close> it gives what the \<open>k\<close>-th chat-completion request
  of the run returns (the message content) or raises. \<open>openai_client sv\<close> is the outcome of
  building a client from the environment, as \<^verbatim>\<open>OpenAIClient.get_client()\<close> and
  \<^verbatim>\<open>openai.AsyncOpenAI()\<close> do: the exception they raise when \<^verbatim>\<open>OPENAI_API_KEY\<close> is not
  set, or the client. \<open>set_api_key sv\<close> is the outcome of
  \<^verbatim>\<open>set_api_key(os.getenv("ELEVEN_LABS_API_KEY"))\<close>, which raises when that variable is
  not set. \<open>runcomfy\<close>, \<open>elevenlabs\<close> and \<open>ffmpeg_spawn\<close> are the tables of the image
  service, the voice service and the spawning of \<^verbatim>\<open>ffmpeg\<close>, and \<open>clock sv k\<close> is the
  \<open>k\<close>-th reading of \<^verbatim>\<open>datetime.now().isoformat()\<close>. The remaining fields are the inputs
  of the page: whether the uploads could be saved, whether a rendered video can be opened,
  and the feedback form of each segment with its submit button. The calls that only draw
  the page are taken to return normally.
\<close>

type_synonym client = "nat \<Rightarrow> error + string"

record services =
  clock :: "nat \<Rightarrow> string"
  openai_client :: "error + client"
  runcomfy :: "nat \<Rightarrow> error + string"
  set_api_key :: "error option"
  elevenlabs :: "nat \<Rightarrow> error + string"
  ffmpeg_spawn :: "nat \<Rightarrow> error option"
  save_uploads :: "error option"
  open_video :: "string \<Rightarrow> error option"
  text_rating :: "nat \<Rightarrow> int"
  prompt_rating :: "nat \<Rightarrow> int"
  revised_prompt :: "nat \<Rightarrow> string"
  comments :: "nat \<Rightarrow> string"
  submit_feedback :: "nat \<Rightarrow> bool"

text \<open>
  \<open>chat sv k\<close> is the outcome of the \<open>k\<close>-th chat-completion request of the run: a reply
  needs a client, so without one it is the exception of building it.
\<close>

definition chat :: "services \<Rightarrow> nat \<Rightarrow> error + string" where
  "chat sv k = (case openai_client sv of Inl e \<Rightarrow> Inl e | Inr c \<Rightarrow> c k)"

text \<open>
  The state of a run: the module-level \<^verbatim>\<open>tracker\<close> with what it wrote, the number of
  clock readings taken, and the requests sent so far: the user message of each
  chat-completion request, prompt and character reference of each image job, text and
  voice of each synthesis, and image, audio and output path of each render. The files
  under \<^verbatim>\<open>temp/\<close> are represented by their paths.
\<close>

record world =
  tracker :: "ExperimentTracker \<times> storage"
  clock_reads :: nat
  chat_requests :: "string list"
  image_requests :: "(string \<times> string) list"
  voice_requests :: "(string \<times> string) list"
  renders :: "(string \<times> string \<times> string) list"

text \<open>
  Sequencing of statements that may raise: \<open>and_then r k\<close> continues with \<open>k\<close> on the
  value and state of \<open>r\<close>, and an exception in \<open>r\<close> skips \<open>k\<close>, keeping the state in
  which it was raised. \<open>and_then_do f k\<close> first runs the statement \<open>f\<close> in the given state.
\<close>

definition and_then ::
  "(error + 'a) \<times> world \<Rightarrow> ('a \<Rightarrow> world \<Rightarrow> (error + 'b) \<times> world) \<Rightarrow> (error + 'b) \<times> world" where
  "and_then r k = (case fst r of Inl e \<Rightarrow> (Inl e, snd r) | Inr x \<Rightarrow> k x (snd r))"

definition and_then_do ::
  "(world \<Rightarrow> (error + 'a) \<times> world) \<Rightarrow> ('a \<Rightarrow> world \<Rightarrow> (error + 'b) \<times> world) \<Rightarrow>
   world \<Rightarrow> (error + 'b) \<times> world" where
  "and_then_do f k w = and_then (f w) k"

text \<open>\<^verbatim>\<open>openai.AsyncOpenAI()\<close>: a client built from the environment.\<close>

definition AsyncOpenAI :: "services \<Rightarrow> world \<Rightarrow> (error + client) \<times> world" where
  "AsyncOpenAI sv w = (openai_client sv, w)"

section \<open>The segmenter: \<^verbatim>\<open>processors/document_processor.py\<close>\<close>

text \<open>
  \<^verbatim>\<open>str.strip()\<close> removes the characters for which \<^verbatim>\<open>str.isspace\<close> holds from both ends;
  below code point 256 these are 9 to 13, 28 to 32, 133 and 160.
\<close>

definition is_space :: "char \<Rightarrow> bool" where
  "is_space c = ((of_char c :: nat) \<in> {9, 10, 11, 12, 13, 28, 29, 30, 31, 32, 133, 160})"

definition strip :: "string \<Rightarrow> string" where
  "strip s = rev (dropWhile is_space (rev (dropWhile is_space s)))"

text \<open>
  \<^verbatim>\<open>s.split("\n\n")\<close>: the pieces between the occurrences of two line feeds, found from
  the left without overlap; a string without an occurrence is the only piece.
\<close>

fun split_nn :: "string \<Rightarrow> string list" where
  "split_nn [] = [[]]"
| "split_nn [c] = [[c]]"
| "split_nn (c # d # cs) =
     (if c = CHR 0x0A \<and> d = CHR 0x0A then [] # split_nn cs
      else (case split_nn (d # cs) of [] \<Rightarrow> [[c]] | p # ps \<Rightarrow> (c # p) # ps))"

text \<open>
  An uploaded file as \<^verbatim>\<open>process_documents\<close> meets it. For a path with suffix
  \<^verbatim>\<open>.pdf\<close>: what opening it with \<^verbatim>\<open>PdfReader\<close> and extracting its pages gives (\<open>Inl\<close> when
  one of these library calls raises). For any other path: what reading it as UTF-8 gives,
  and what reading it as Latin-1 gives.
\<close>

record PdfReader =
  is_encrypted :: bool
  decrypt_raises :: bool
  pages :: "string list"

datatype upload =
    PdfFile string "error + PdfReader"
  | TextFile string "error + string" "error + string"

definition extract_text_from_pdf :: "string \<Rightarrow> error + PdfReader \<Rightarrow> error + string" where
  "extract_text_from_pdf file_path opened =
     (case
        (case opened of
           Inl e \<Rightarrow> Inl e
         | Inr pdf_reader \<Rightarrow>
             if is_encrypted pdf_reader \<and> decrypt_raises pdf_reader
             then Inl (Exception (''Could not decrypt PDF: '' @ file_path))
             else
               let text = concat (map (\<lambda>page. page @ [CHR 0x0A, CHR 0x0A]) (pages pdf_reader))
               in if strip text = []
                  then Inl (Exception (''No text could be extracted from PDF: '' @ file_path))
                  else Inr text)
      of Inl e \<Rightarrow> Inl (Exception (''Error processing PDF '' @ file_path @ '': '' @ py_str e))
       | Inr text \<Rightarrow> Inr text)"

fun read_upload :: "upload \<Rightarrow> error + string" where
  "read_upload (PdfFile file_path opened) = extract_text_from_pdf file_path opened"
| "read_upload (TextFile file_path utf8 latin1) =
     (case utf8 of Inl (UnicodeDecodeError m) \<Rightarrow> latin1 | r \<Rightarrow> r)"

text \<open>The first loop of \<^verbatim>\<open>process_documents\<close>; \<open>combined_text\<close> is its accumulator.\<close>

fun combine :: "upload list \<Rightarrow> string \<Rightarrow> error + string" where
  "combine [] combined_text = Inr combined_text"
| "combine (f # fs) combined_text =
     (case read_upload f of
        Inl e \<Rightarrow> Inl e
      | Inr text \<Rightarrow> combine fs (combined_text @ text @ [CHR 0x0A, CHR 0x0A]))"

definition placeholder :: string where
  "placeholder = ''[Segment content to be generated]''"

definition empty_input_error :: error where
  "empty_input_error = Exception ''No content could be extracted from the uploaded documents''"

text \<open>The comprehension that parses the reply into the candidate segments.\<close>

definition candidates :: "string \<Rightarrow> string list" where
  "candidates content = map strip (filter (\<lambda>s. strip s \<noteq> []) (split_nn content))"

text \<open>The \<^verbatim>\<open>try\<close> block of \<^verbatim>\<open>process_documents\<close>, given the outcome of the request.\<close>

definition parse_reply :: "error + string \<Rightarrow> error + string list" where
  "parse_reply reply =
     (case reply of
        Inl e \<Rightarrow> Inl e
      | Inr content \<Rightarrow>
          let segs = candidates content
          in if segs = [] then Inl (Exception ''No segments were generated'')
             else Inr (take 10 (if length segs < 10
                                then segs @ replicate (10 - length segs) placeholder
                                else segs)))"

text \<open>
  \<^verbatim>\<open>process_documents\<close> first obtains the client, then reads the documents, and sends one
  request when their combined text is not blank.
\<close>

definition process_documents ::
  "services \<Rightarrow> upload list \<Rightarrow> world \<Rightarrow> (error + string list) \<times> world" where
  "process_documents sv file_paths w =
     (case openai_client sv of
        Inl e \<Rightarrow> (Inl e, w)
      | Inr c \<Rightarrow>
     (case combine file_paths [] of
        Inl e \<Rightarrow> (Inl e, w)
      | Inr combined_text \<Rightarrow>
          if strip combined_text = [] then (Inl empty_input_error, w)
          else
            let w' = w\<lparr>chat_requests := chat_requests w @
                       [''Create 10 one-minute segments from this story: '' @ combined_text]\<rparr>
            in (case parse_reply (c (length (chat_requests w))) of
                  Inl e \<Rightarrow> (Inl (Exception (''Failed to process documents: '' @ py_str e)), w')
                | Inr segs \<Rightarrow> (Inr segs, w'))))"



section \<open>The generators: \<^verbatim>\<open>image_generator.py\<close>, \<^verbatim>\<open>audio_generator.py\<close>, \<^verbatim>\<open>video_generator.py\<close>\<close>

text \<open>
  A function that calls a service returns its result, or the exception raised, together
  with the state the call left behind.
\<close>

definition sd_prompt_message :: "string \<Rightarrow> string" where
  "sd_prompt_message segment = ''Create a cinematic SD prompt for this scene: '' @ segment"

definition generate_sd_prompts :: "client \<Rightarrow> string \<Rightarrow> world \<Rightarrow> (error + string) \<times> world" where
  "generate_sd_prompts c segment w =
     (c (length (chat_requests w)),
      w\<lparr>chat_requests := chat_requests w @ [sd_prompt_message segment]\<rparr>)"

text \<open>
  The loop of \<^verbatim>\<open>generate_images\<close> from position \<open>i\<close> of the enumeration. Each round
  builds a client and asks for a prompt, posts the job with that prompt and the character
  reference, and stores the image fetched from the answer.
\<close>

definition image_file :: "nat \<Rightarrow> string" where
  "image_file i = ''temp/image_'' @ str_nat i @ ''.png''"

fun generate_images_from ::
  "services \<Rightarrow> string \<Rightarrow> nat \<Rightarrow> string list \<Rightarrow> string list \<Rightarrow> world \<Rightarrow>
   (error + string list) \<times> world" where
  "generate_images_from sv character_image_path i [] image_paths w = (Inr image_paths, w)"
| "generate_images_from sv character_image_path i (segment # rest) image_paths w =
     (let r = and_then (AsyncOpenAI sv w) (\<lambda>c. generate_sd_prompts c segment)
      in case fst r of
           Inl e \<Rightarrow> (Inl e, snd r)
         | Inr prm \<Rightarrow>
             let w1 = snd r;
                 w2 = w1\<lparr>image_requests := image_requests w1 @ [(prm, character_image_path)]\<rparr>
             in (case runcomfy sv (length (image_requests w1)) of
                   Inl e \<Rightarrow> (Inl e, w2)
                 | Inr content \<Rightarrow>
                     generate_images_from sv character_image_path (Suc i) rest
                       (image_paths @ [image_file i]) w2))"

definition generate_images ::
  "services \<Rightarrow> string list \<Rightarrow> string \<Rightarrow> world \<Rightarrow> (error + string list) \<times> world" where
  "generate_images sv segs character_image_path w =
     generate_images_from sv character_image_path 0 segs [] w"

fun generate_voiceovers_from ::
  "services \<Rightarrow> string \<Rightarrow> nat \<Rightarrow> string list \<Rightarrow> string list \<Rightarrow> world \<Rightarrow>
   (error + string list) \<times> world" where
  "generate_voiceovers_from sv voice_id i [] audio_paths w = (Inr audio_paths, w)"
| "generate_voiceovers_from sv voice_id i (segment # rest) audio_paths w =
     (let w1 = w\<lparr>voice_requests := voice_requests w @ [(segment, voice_id)]\<rparr>
      in case elevenlabs sv (length (voice_requests w)) of
           Inl e \<Rightarrow> (Inl e, w1)
         | Inr audio \<Rightarrow>
             generate_voiceovers_from sv voice_id (Suc i) rest
               (audio_paths @ [''temp/audio_'' @ str_nat i @ ''.mp3'']) w1)"

definition generate_voiceovers ::
  "services \<Rightarrow> string list \<Rightarrow> string \<Rightarrow> world \<Rightarrow> (error + string list) \<times> world" where
  "generate_voiceovers sv segs voice_id w =
     (case set_api_key sv of
        Some e \<Rightarrow> (Inl e, w)
      | None \<Rightarrow> generate_voiceovers_from sv voice_id 0 segs [] w)"

text \<open>
  \<^verbatim>\<open>create_video_segments\<close> walks \<^verbatim>\<open>zip(image_paths, audio_paths)\<close> and spawns one
  \<^verbatim>\<open>ffmpeg\<close> process per pair.
\<close>

fun create_video_segments_from ::
  "services \<Rightarrow> nat \<Rightarrow> (string \<times> string) list \<Rightarrow> string list \<Rightarrow> world \<Rightarrow>
   (error + string list) \<times> world" where
  "create_video_segments_from sv i [] video_paths w = (Inr video_paths, w)"
| "create_video_segments_from sv i ((img, aud) # rest) video_paths w =
     (let output_path = ''temp/segment_'' @ str_nat i @ ''.mp4'';
          w1 = w\<lparr>renders := renders w @ [(img, aud, output_path)]\<rparr>
      in case ffmpeg_spawn sv (length (renders w)) of
           Some e \<Rightarrow> (Inl e, w1)
         | None \<Rightarrow> create_video_segments_from sv (Suc i) rest (video_paths @ [output_path]) w1)"

definition create_video_segments ::
  "services \<Rightarrow> string list \<Rightarrow> string list \<Rightarrow> world \<Rightarrow> (error + string list) \<times> world" where
  "create_video_segments sv image_paths audio_paths w =
     create_video_segments_from sv 0 (zip image_paths audio_paths) [] w"

section \<open>The orchestrator: \<^verbatim>\<open>main.py\<close>\<close>

text \<open>
  The calls on the module-level tracker, with the clock readings they take: one for each
  \<^verbatim>\<open>state.json\<close> written, one for an error recorded, and one more for an event sent to
  W&B that carries a timestamp. A call that raises has not read the clock.
\<close>

definition tracker_start_segment :: "services \<Rightarrow> string \<Rightarrow> string \<Rightarrow> world \<Rightarrow> int \<times> world" where
  "tracker_start_segment sv txt prm w =
     (let r = start_segment txt prm (clock sv (clock_reads w)) (tracker w)
      in (fst r, w\<lparr>tracker := snd r, clock_reads := Suc (clock_reads w)\<rparr>))"

definition tracker_update_segment ::
  "services \<Rightarrow> int \<Rightarrow> (string \<times> string option) list \<Rightarrow> world \<Rightarrow> (error + unit) \<times> world" where
  "tracker_update_segment sv segment_idx kwargs w =
     (case call_update_segment segment_idx kwargs (clock sv (clock_reads w)) (tracker w) of
        Inl e \<Rightarrow> (Inl e, w)
      | Inr t \<Rightarrow> (Inr (), w\<lparr>tracker := t, clock_reads := Suc (clock_reads w)\<rparr>))"

definition tracker_add_feedback ::
  "services \<Rightarrow> int \<Rightarrow> (string \<times> pyval) list \<Rightarrow> world \<Rightarrow> (error + bool) \<times> world" where
  "tracker_add_feedback sv segment_idx fb w =
     (case add_feedback segment_idx fb (clock sv (clock_reads w)) (tracker w) of
        Inl e \<Rightarrow> (Inl e, w)
      | Inr r \<Rightarrow> (Inr (fst r), w\<lparr>tracker := snd r, clock_reads := Suc (clock_reads w)\<rparr>))"

definition stamped :: "world \<Rightarrow> nat" where
  "stamped w = (if wandb (fst (tracker w)) then 2 else 1)"

definition tracker_log_error :: "services \<Rightarrow> string \<Rightarrow> world \<Rightarrow> world" where
  "tracker_log_error sv error_message w =
     w\<lparr>tracker := log_error error_message (clock sv (clock_reads w))
                    (clock sv (Suc (clock_reads w))) (tracker w),
       clock_reads := clock_reads w + stamped w\<rparr>"

definition tracker_save_experiment :: "services \<Rightarrow> world \<Rightarrow> world" where
  "tracker_save_experiment sv w =
     w\<lparr>tracker := save_experiment (clock sv (clock_reads w))
                    (clock sv (Suc (clock_reads w))) (tracker w),
       clock_reads := clock_reads w + stamped w\<rparr>"

definition tracker_finish :: "services \<Rightarrow> world \<Rightarrow> world" where
  "tracker_finish sv w =
     w\<lparr>tracker := finish (clock sv (clock_reads w))
                    (clock sv (Suc (clock_reads w))) (tracker w),
       clock_reads := clock_reads w + stamped w\<rparr>"

text \<open>\<^verbatim>\<open>paths[0] if paths else None\<close>.\<close>

definition first_or_none :: "string list \<Rightarrow> string option" where
  "first_or_none paths = (case paths of [] \<Rightarrow> None | p # _ \<Rightarrow> Some p)"

text \<open>
  The body of the loop over \<^verbatim>\<open>enumerate(segments)\<close> for the segment at position \<open>i\<close>. It
  returns the \<^verbatim>\<open>video_paths\<close> it bound, or the exception that left the body.
\<close>

definition feedback_step :: "services \<Rightarrow> nat \<Rightarrow> world \<Rightarrow> (error + unit) \<times> world" where
  "feedback_step sv i w =
     (let fb = [(''text_rating'', PyInt (text_rating sv i)),
                (''prompt_rating'', PyInt (prompt_rating sv i)),
                (''revised_prompt'', PyStr (revised_prompt sv i)),
                (''comments'', PyStr (comments sv i))]
      in if submit_feedback sv i
         then and_then (tracker_add_feedback sv (int i) fb w)
                (\<lambda>needs_regeneration. Pair (Inr ()))
         else (Inr (), w))"

definition segment_body ::
  "services \<Rightarrow> string \<Rightarrow> string \<Rightarrow> nat \<Rightarrow> string \<Rightarrow> world \<Rightarrow> (error + string list) \<times> world" where
  "segment_body sv char_image_path voice i segment w =
     (let started = tracker_start_segment sv segment [] w;
          segment_idx = fst started
      in and_then (AsyncOpenAI sv (snd started)) (\<lambda>c.
         and_then_do (generate_sd_prompts c segment) (\<lambda>prm.
         and_then_do (tracker_update_segment sv segment_idx [(''prompt'', Some prm)]) (\<lambda>u.
         and_then_do (generate_images sv [segment] char_image_path) (\<lambda>image_paths.
         and_then_do (generate_voiceovers sv [segment] voice) (\<lambda>audio_paths.
         and_then_do (create_video_segments sv image_paths audio_paths) (\<lambda>video_paths.
         and_then_do (tracker_update_segment sv segment_idx
                        [(''image_path'', first_or_none image_paths),
                         (''audio_path'', first_or_none audio_paths),
                         (''video_path'', first_or_none video_paths)]) (\<lambda>u'.
         and_then_do (feedback_step sv i) (\<lambda>u''.
         Pair (Inr video_paths))))))))))"

text \<open>
  The loop. \<open>video_paths\<close> is the local variable of that name: \<open>None\<close> until a round has
  bound it.
\<close>

fun segment_loop ::
  "services \<Rightarrow> string \<Rightarrow> string \<Rightarrow> nat \<Rightarrow> string list \<Rightarrow> string list option \<Rightarrow> world \<Rightarrow>
   (error + string list option) \<times> world" where
  "segment_loop sv char_image_path voice i [] video_paths w = (Inr video_paths, w)"
| "segment_loop sv char_image_path voice i (segment # rest) video_paths w =
     (let r = segment_body sv char_image_path voice i segment w
      in case fst r of
           Inl e \<Rightarrow> (Inl e, snd r)
         | Inr paths \<Rightarrow>
             segment_loop sv char_image_path voice (Suc i) rest (Some paths) (snd r))"

fun download_links :: "services \<Rightarrow> string list \<Rightarrow> error + unit" where
  "download_links sv [] = Inr ()"
| "download_links sv (path # rest) =
     (case open_video sv path of Some e \<Rightarrow> Inl e | None \<Rightarrow> download_links sv rest)"

text \<open>The \<^verbatim>\<open>try\<close> block of \<^verbatim>\<open>main\<close>, once the button is pressed with files and an image.\<close>

definition main_try ::
  "services \<Rightarrow> upload list \<Rightarrow> string \<Rightarrow> string \<Rightarrow> world \<Rightarrow> (error + unit) \<times> world" where
  "main_try sv file_paths char_image_path voice w =
     (case save_uploads sv of
        Some e \<Rightarrow> (Inl e, w)
      | None \<Rightarrow>
          and_then (process_documents sv file_paths w) (\<lambda>segs.
          and_then_do (segment_loop sv char_image_path voice 0 segs None) (\<lambda>video_paths w2.
            let w3 = tracker_save_experiment sv w2
            in (case video_paths of
                  None \<Rightarrow> (Inl (UnboundLocalError
                    ''cannot access local variable 'video_paths' where it is not associated with a value''), w3)
                | Some paths \<Rightarrow> (download_links sv paths, w3)))))"

text \<open>
  \<^verbatim>\<open>main\<close>: the \<^verbatim>\<open>try\<close> block, the \<^verbatim>\<open>except\<close> clause that records the exception, and the
  \<^verbatim>\<open>finally\<close> clause, which removes \<^verbatim>\<open>temp/\<close> and saves and finishes the experiment.
\<close>

definition main :: "services \<Rightarrow> upload list \<Rightarrow> string \<Rightarrow> string \<Rightarrow> world \<Rightarrow> world" where
  "main sv file_paths char_image_path voice w =
     (let r = main_try sv file_paths char_image_path voice w;
          w1 = (case fst r of
                  Inl e \<Rightarrow> tracker_log_error sv (''An error occurred: '' @ py_str e) (snd r)
                | Inr u \<Rightarrow> snd r)
      in tracker_finish sv (tracker_save_experiment sv w1))"

section \<open>Inputs of the examples\<close>

text \<open>A storage directory just created, and a tracker that has started two segments.\<close>

definition empty_storage :: storage where
  "empty_storage = \<lparr>state_json = None, errors_json = None, metrics_json = None,
                     wandb_log = [], wandb_finished = False\<rparr>"

definition two_started :: "ExperimentTracker \<times> storage" where
  "two_started = snd (start_all [(''one'', [], ''t0''), (''two'', [], ''t1'')]
                        (init ''Crime-Doc-Generator'' ''20240101_120000'' False, empty_storage))"



text \<open>Uploaded files, replies of the completion service, the services of a run and a fresh state.\<close>

definition case_file :: upload where
  "case_file = TextFile ''case.txt'' (Inr ''story'') (Inr ''story'')"


definition two_paragraphs :: string where
  "two_paragraphs = ''seg a'' @ [CHR 0x0A, CHR 0x0A] @ ''seg b''"


definition example_services :: services where
  "example_services =
     \<lparr>clock = (\<lambda>k. ''2024-01-01T12:00:0'' @ str_nat k),
      openai_client = Inr (\<lambda>k. if k = 0 then Inr two_paragraphs
                                else if k = 1 then Inr ''A'' else Inr ''B''),
      runcomfy = (\<lambda>k. Inr ''png''), set_api_key = None, elevenlabs = (\<lambda>k. Inr ''mp3''),
      ffmpeg_spawn = (\<lambda>k. None), save_uploads = None, open_video = (\<lambda>p. None),
      text_rating = (\<lambda>i. 3), prompt_rating = (\<lambda>i. 3),
      revised_prompt = (\<lambda>i. []), comments = (\<lambda>i. []), submit_feedback = (\<lambda>i. False)\<rparr>"

definition fresh_world :: world where
  "fresh_world =
     \<lparr>tracker = (init ''Crime-Doc-Generator'' ''20240101_120000'' False, empty_storage),
      clock_reads = 0, chat_requests = [], image_requests = [], voice_requests = [],
      renders = []\<rparr>"


text \<open>Services whose chat completion fails after the segmentation.\<close>

definition failing_services :: services where
  "failing_services = example_services
     \<lparr>openai_client :=
        Inr (\<lambda>k. if k = 0 then Inr two_paragraphs else Inl (OSError ''Connection error.''))\<rparr>"



section \<open>Properties of the run state\<close>


lemma list_pos_Inr: "list_pos xs i = Inr k \<Longrightarrow> k < length xs"
  by (auto simp: list_pos_def Let_def split: if_splits)

lemma list_pos_range:
  "list_pos xs i =
     (if - int (length xs) \<le> i \<and> i < int (length xs)
      then Inr (nat (if i < 0 then int (length xs) + i else i))
      else Inl (IndexError ''list index out of range''))"
  by (auto simp: list_pos_def Let_def)

lemma has_error_update:
  "update_segment i a b c now s = Inr s' \<Longrightarrow> has_error (fst s') = has_error (fst s)"
  by (auto simp: update_segment_def Let_def split: sum.splits)

lemma has_error_call_update:
  "call_update_segment i kw now s = Inr s' \<Longrightarrow> has_error (fst s') = has_error (fst s)"
  by (auto simp: call_update_segment_def has_error_update split: list.splits)

lemma has_error_perform:
  "has_error (fst (perform x s)) = (has_error (fst s) \<or> is_log_error x)"
  by (cases x)
     (auto simp: start_segment_def Let_def log_error_def log_metrics_def add_feedback_def
                 save_experiment_def finish_def cleanup_def has_error_call_update
           split: sum.splits)

lemma has_error_perform_all:
  "has_error (fst (perform_all xs s)) = (has_error (fst s) \<or> (\<exists>x \<in> set xs. is_log_error x))"
  unfolding perform_all_def
  by (induction xs arbitrary: s) (auto simp: has_error_perform)

text \<open>
  Claim C9. The flag \<open>has_error\<close> is monotone within a run: a tracker is created with
  the flag false; after any operation the flag is set exactly when it was set before or
  the operation is \<^verbatim>\<open>log_error\<close>, which always sets it; and so after any sequence of
  operations. No operation resets it.
\<close>

theorem has_error_monotone:
  "has_error (init name now_id wandb_run) = False \<and>
   has_error (fst (perform x s)) = (has_error (fst s) \<or> is_log_error x) \<and>
   has_error (fst (log_error m now now' s)) = True \<and>
   has_error (fst (perform_all xs s)) = (has_error (fst s) \<or> (\<exists>x \<in> set xs. is_log_error x))"
  using has_error_perform [of x s] has_error_perform_all [of xs s]
  by (simp add: init_def log_error_def Let_def)


theorem has_error_monotone_witness:
  "has_error (fst (perform_all
      [StartSegment ''a'' [] ''t0'', LogError ''boom'' ''t1'' ''t2'', SaveExperiment ''t3'' ''t4'']
      (init ''p'' ''r'' False, empty_storage))) \<and>
   \<not> has_error (fst (perform_all
      [StartSegment ''a'' [] ''t0'', UpdateSegment 0 [(''image_path'', Some ''i.png'')] ''t1'']
      (init ''p'' ''r'' False, empty_storage)))"
  using has_error_monotone [of "''p''" "''r''" False "LogError ''boom'' ''t1'' ''t2''" "(init ''p'' ''r'' False, empty_storage)" "''m''" "''t''" "''t''"
      "[StartSegment ''a'' [] ''t0'', LogError ''boom'' ''t1'' ''t2'', SaveExperiment ''t3'' ''t4'']"]
    has_error_monotone [of "''p''" "''r''" False "LogError ''boom'' ''t1'' ''t2''" "(init ''p'' ''r'' False, empty_storage)" "''m''" "''t''" "''t''"
      "[StartSegment ''a'' [] ''t0'', UpdateSegment 0 [(''image_path'', Some ''i.png'')] ''t1'']"]
  by (simp add: init_def)

lemma two_started_tracker:
  "fst two_started =
     \<lparr>project_name = ''Crime-Doc-Generator'',
      segments = [\<lparr>seg_text = ''one'', prompt = [], image_path = None, audio_path = None,
                    video_path = None, feedback = None, metrics = None\<rparr>,
                  \<lparr>seg_text = ''two'', prompt = [], image_path = None, audio_path = None,
                    video_path = None, feedback = None, metrics = None\<rparr>],
      run_id = ''20240101_120000'', has_error = False, wandb = False,
      storage_dir = ''experiments/20240101_120000''\<rparr>"
  by (simp add: two_started_def start_segment_def init_def Let_def)

lemma update_segment_nth:
  "update_segment i a b c now s = Inr s' \<Longrightarrow> k < length (segments (fst s)) \<Longrightarrow>
   length (segments (fst s')) = length (segments (fst s)) \<and>
   seg_text (segments (fst s') ! k) = seg_text (segments (fst s) ! k) \<and>
   prompt (segments (fst s') ! k) = prompt (segments (fst s) ! k) \<and>
   (list_pos (segments (fst s)) i \<noteq> Inr k \<longrightarrow> segments (fst s') ! k = segments (fst s) ! k)"
  by (auto simp: update_segment_def Let_def nth_list_update split: sum.splits dest: list_pos_Inr)

lemma call_update_segment_nth:
  "call_update_segment i kw now s = Inr s' \<Longrightarrow> k < length (segments (fst s)) \<Longrightarrow>
   length (segments (fst s')) = length (segments (fst s)) \<and>
   seg_text (segments (fst s') ! k) = seg_text (segments (fst s) ! k) \<and>
   prompt (segments (fst s') ! k) = prompt (segments (fst s) ! k) \<and>
   (list_pos (segments (fst s)) i \<noteq> Inr k \<longrightarrow> segments (fst s') ! k = segments (fst s) ! k)"
  unfolding call_update_segment_def
  by (cases "filter (\<lambda>k. k \<notin> set update_segment_params) (map fst kw)")
     (simp_all add: update_segment_nth)

lemma add_feedback_nth:
  "add_feedback i fb now s = Inr r \<Longrightarrow> k < length (segments (fst s)) \<Longrightarrow>
   length (segments (fst (snd r))) = length (segments (fst s)) \<and>
   seg_text (segments (fst (snd r)) ! k) = seg_text (segments (fst s) ! k) \<and>
   prompt (segments (fst (snd r)) ! k) = prompt (segments (fst s) ! k) \<and>
   (list_pos (segments (fst s)) i \<noteq> Inr k \<longrightarrow> segments (fst (snd r)) ! k = segments (fst s) ! k)"
  by (auto simp: add_feedback_def Let_def nth_list_update split: sum.splits dest: list_pos_Inr)

lemma perform_nth:
  assumes "k < length (segments (fst s))"
  shows "k < length (segments (fst (perform x s))) \<and>
   seg_text (segments (fst (perform x s)) ! k) = seg_text (segments (fst s) ! k) \<and>
   prompt (segments (fst (perform x s)) ! k) = prompt (segments (fst s) ! k) \<and>
   (addressed x (fst s) \<noteq> Some k \<longrightarrow> segments (fst (perform x s)) ! k = segments (fst s) ! k)"
proof (cases x)
  case (StartSegment tx prm now)
  with assms show ?thesis by (simp add: start_segment_def Let_def nth_append)
next
  case (UpdateSegment i kw now)
  show ?thesis
  proof (cases "call_update_segment i kw now s")
    case (Inl e)
    with UpdateSegment assms show ?thesis by simp
  next
    case (Inr s')
    from call_update_segment_nth [OF Inr assms] UpdateSegment Inr assms show ?thesis
      by (auto split: sum.splits)
  qed
next
  case (AddFeedback i fb now)
  show ?thesis
  proof (cases "add_feedback i fb now s")
    case (Inl e)
    with AddFeedback assms show ?thesis by simp
  next
    case (Inr r)
    from add_feedback_nth [OF Inr assms] AddFeedback Inr assms show ?thesis
      by (auto split: sum.splits)
  qed
qed (use assms in \<open>simp_all add: log_error_def log_metrics_def save_experiment_def finish_def cleanup_def Let_def\<close>)

lemma perform_all_nth:
  "k < length (segments (fst s)) \<Longrightarrow>
   k < length (segments (fst (perform_all xs s))) \<and>
   seg_text (segments (fst (perform_all xs s)) ! k) = seg_text (segments (fst s) ! k) \<and>
   prompt (segments (fst (perform_all xs s)) ! k) = prompt (segments (fst s) ! k) \<and>
   (elsewhere k xs s \<longrightarrow> segments (fst (perform_all xs s)) ! k = segments (fst s) ! k)"
proof (induction xs arbitrary: s)
  case Nil
  then show ?case by (simp add: perform_all_def)
next
  case (Cons x xs)
  from perform_nth [OF Cons.prems, of x] have k: "k < length (segments (fst (perform x s)))" by simp
  from Cons.IH [OF k] perform_nth [OF Cons.prems, of x] show ?case
    by (simp add: perform_all_def)
qed

lemma upt_0_Suc: "[0..<Suc n] = 0 # map Suc [0..<n]"
  by (simp add: upt_conv_Cons map_Suc_upt del: upt_Suc)

lemma start_all_indices:
  "fst (start_all args s) = map (\<lambda>j. int (length (segments (fst s)) + j)) [0..<length args] \<and>
   segments (fst (snd (start_all args s))) = segments (fst s) @
     map (\<lambda>a. \<lparr>seg_text = fst a, prompt = fst (snd a), image_path = None, audio_path = None,
                video_path = None, feedback = None, metrics = None\<rparr>) args"
proof (induction args arbitrary: s)
  case Nil
  then show ?case by simp
next
  case (Cons a args)
  obtain tx prm now where a: "a = (tx, prm, now)" by (cases a) auto
  have len: "length (segments (fst (snd (start_segment tx prm now s)))) = Suc (length (segments (fst s)))"
    and segs: "segments (fst (snd (start_segment tx prm now s))) = segments (fst s) @
       [\<lparr>seg_text = tx, prompt = prm, image_path = None, audio_path = None,
                video_path = None, feedback = None, metrics = None\<rparr>]"
    and idx: "fst (start_segment tx prm now s) = int (length (segments (fst s)))"
    by (simp_all add: start_segment_def Let_def)
  from Cons.IH [of "snd (start_segment tx prm now s)"] show ?case
    by (simp add: a Let_def len segs idx upt_0_Suc comp_def del: upt_Suc)
qed

text \<open>
  Claim C8. Calling \<^verbatim>\<open>start_segment\<close> \<open>N\<close> times on a fresh run state returns the
  indices \<open>0\<close> to \<open>N - 1\<close> in call order, the segment at each index holding the text and
  prompt of that call. An index that refers to a segment keeps referring to it: after any
  sequence of operations the index is still valid and the segment there has the same text
  and prompt, and when none of the operations assigns to that segment it is unchanged.
\<close>

theorem start_segment_indices:
  "fst (start_all args (init name now_id wandb_run, st)) = map int [0..<length args] \<and>
   map (\<lambda>g. (seg_text g, prompt g)) (segments (fst (snd (start_all args (init name now_id wandb_run, st)))))
     = map (\<lambda>a. (fst a, fst (snd a))) args \<and>
   (\<forall>k < length (segments (fst s)).
      k < length (segments (fst (perform_all xs s))) \<and>
      seg_text (segments (fst (perform_all xs s)) ! k) = seg_text (segments (fst s) ! k) \<and>
      prompt (segments (fst (perform_all xs s)) ! k) = prompt (segments (fst s) ! k) \<and>
      (elsewhere k xs s \<longrightarrow> segments (fst (perform_all xs s)) ! k = segments (fst s) ! k))"
  using start_all_indices [of args "(init name now_id wandb_run, st)"] perform_all_nth [of _ s xs]
  by (simp add: init_def comp_def)


theorem start_segment_indices_witness:
  "fst (start_all [(''one'', [], ''t0''), (''two'', [], ''t1'')]
          (init ''Crime-Doc-Generator'' ''20240101_120000'' False, empty_storage)) = [0, 1] \<and>
   elsewhere 0 [UpdateSegment 1 [(''image_path'', Some ''temp/image_0.png'')] ''t2'',
                LogError ''boom'' ''t3'' ''t4''] two_started \<and>
   segments (fst (perform_all
       [UpdateSegment 1 [(''image_path'', Some ''temp/image_0.png'')] ''t2'',
        LogError ''boom'' ''t3'' ''t4''] two_started)) ! 0 = segments (fst two_started) ! 0"
proof -
  let ?xs = "[UpdateSegment 1 [(''image_path'', Some ''temp/image_0.png'')] ''t2'',
              LogError ''boom'' ''t3'' ''t4'']"
  have len: "0 < length (segments (fst two_started))"
    by (simp add: two_started_tracker)
  have els: "elsewhere 0 ?xs two_started"
    by (simp add: two_started_tracker list_pos_range)
  from start_segment_indices [of "[(''one'', [], ''t0''), (''two'', [], ''t1'')]"
      "''Crime-Doc-Generator''" "''20240101_120000''" False empty_storage two_started ?xs]
    len els
  show ?thesis by simp
qed

lemma update_segment_in_range:
  assumes lo: "- int (length (segments (fst s))) \<le> i" and hi: "i < int (length (segments (fst s)))"
  shows "\<exists>st'. update_segment i img aud vid now s =
           Inr ((fst s)\<lparr>segments := (segments (fst s))
                  [nat (if i < 0 then int (length (segments (fst s))) + i else i) :=
                   (segments (fst s) ! nat (if i < 0 then int (length (segments (fst s))) + i else i))
                     \<lparr>image_path := (if truthy_path img then img
                         else image_path (segments (fst s) ! nat (if i < 0 then int (length (segments (fst s))) + i else i))),
                      audio_path := (if truthy_path aud then aud
                         else audio_path (segments (fst s) ! nat (if i < 0 then int (length (segments (fst s))) + i else i))),
                      video_path := (if truthy_path vid then vid
                         else video_path (segments (fst s) ! nat (if i < 0 then int (length (segments (fst s))) + i else i)))\<rparr>]\<rparr>,
                st') \<and>
           errors_json st' = errors_json (snd s) \<and> metrics_json st' = metrics_json (snd s)"
proof -
  have pos: "list_pos (segments (fst s)) i = Inr (nat (if i < 0 then int (length (segments (fst s))) + i else i))"
    using lo hi by (simp add: list_pos_range)
  show ?thesis
    unfolding update_segment_def Let_def pos
    by (simp add: save_local_state_def wandb_emit_def)
qed

lemma truthy_path_Some: "truthy_path p \<Longrightarrow> p \<noteq> None"
  by (cases p) (auto simp: truthy_path_def)

text \<open>
  Claim C10. For an index in range, \<^verbatim>\<open>update_segment\<close> succeeds and changes only the
  artifact paths of the addressed segment for which a truthy value is supplied: the other
  fields of that segment, every other segment and the run-level fields are unchanged. A
  path given as \<^verbatim>\<open>None\<close> or as the empty string leaves the stored path in place, so a
  path that is set is never cleared.
\<close>

theorem update_segment_frame:
  assumes lo: "- int (length (segments (fst s))) \<le> i" and hi: "i < int (length (segments (fst s)))"
  shows "\<exists>s'. update_segment i img aud vid now s = Inr s' \<and>
     (let k = nat (if i < 0 then int (length (segments (fst s))) + i else i);
          old = segments (fst s) ! k;
          new = segments (fst s') ! k
      in length (segments (fst s')) = length (segments (fst s)) \<and>
         (\<forall>j. j \<noteq> k \<longrightarrow> segments (fst s') ! j = segments (fst s) ! j) \<and>
         image_path new = (if truthy_path img then img else image_path old) \<and>
         audio_path new = (if truthy_path aud then aud else audio_path old) \<and>
         video_path new = (if truthy_path vid then vid else video_path old) \<and>
         seg_text new = seg_text old \<and> prompt new = prompt old \<and>
         feedback new = feedback old \<and> metrics new = metrics old \<and>
         (image_path old \<noteq> None \<longrightarrow> image_path new \<noteq> None) \<and>
         (audio_path old \<noteq> None \<longrightarrow> audio_path new \<noteq> None) \<and>
         (video_path old \<noteq> None \<longrightarrow> video_path new \<noteq> None) \<and>
         project_name (fst s') = project_name (fst s) \<and> run_id (fst s') = run_id (fst s) \<and>
         has_error (fst s') = has_error (fst s) \<and> wandb (fst s') = wandb (fst s) \<and>
         storage_dir (fst s') = storage_dir (fst s))"
proof -
  let ?k = "nat (if i < 0 then int (length (segments (fst s))) + i else i)"
  have k: "?k < length (segments (fst s))" using lo hi by auto
  from update_segment_in_range [OF lo hi, of img aud vid now]
  obtain st' where
    eq: "update_segment i img aud vid now s =
           Inr ((fst s)\<lparr>segments := (segments (fst s))[?k :=
             (segments (fst s) ! ?k)\<lparr>image_path := (if truthy_path img then img else image_path (segments (fst s) ! ?k)),
                       audio_path := (if truthy_path aud then aud else audio_path (segments (fst s) ! ?k)),
                       video_path := (if truthy_path vid then vid else video_path (segments (fst s) ! ?k))\<rparr>]\<rparr>, st')"
    by blast
  show ?thesis
    unfolding eq Let_def using k by (auto dest: truthy_path_Some)
qed

theorem update_segment_frame_witness:
  "\<exists>s'. update_segment (- 1) (Some ''temp/image_0.png'') None (Some []) ''t2'' two_started = Inr s' \<and>
     image_path (segments (fst s') ! 1) = Some ''temp/image_0.png'' \<and>
     video_path (segments (fst s') ! 1) = None \<and>
     segments (fst s') ! 0 = segments (fst two_started) ! 0 \<and>
     has_error (fst s') = has_error (fst two_started)"
proof -
  have lo: "- int (length (segments (fst two_started))) \<le> - 1"
    and hi: "- 1 < int (length (segments (fst two_started)))"
    by (simp_all add: two_started_tracker)
  from update_segment_frame [OF lo hi, of "Some ''temp/image_0.png''" None "Some []" "''t2''"]
  show ?thesis
    by (auto simp: Let_def two_started_tracker truthy_path_def)
qed


lemma update_segment_Inl:
  "update_segment i img aud vid now s = Inl e \<longleftrightarrow>
     e = IndexError ''list index out of range'' \<and>
     (i < - int (length (segments (fst s))) \<or> int (length (segments (fst s))) \<le> i)"
  by (auto simp: update_segment_def list_pos_range Let_def)

lemma call_update_segment_unknown:
  assumes "k \<in> fst ` set kwargs" and "k \<notin> set update_segment_params"
  shows "\<exists>m. call_update_segment i kwargs now s = Inl (TypeError m)"
proof -
  from assms have "k \<in> set (filter (\<lambda>k. k \<notin> set update_segment_params) (map fst kwargs))"
    by auto
  then obtain k' ks where "filter (\<lambda>k. k \<notin> set update_segment_params) (map fst kwargs) = k' # ks"
    by (cases "filter (\<lambda>k. k \<notin> set update_segment_params) (map fst kwargs)") auto
  then show ?thesis by (simp add: call_update_segment_def)
qed

text \<open>
  Claim C3, amended. \<^verbatim>\<open>update_segment\<close> raises \<^verbatim>\<open>IndexError\<close> exactly when the index
  lies outside the range from \<open>- len\<close> to \<open>len - 1\<close> of Python indexing, it raises nothing
  else, and when it succeeds the segment at the index receives those of the image, audio
  and video paths that are truthy. The method has no status parameter: a call that passes
  \<^verbatim>\<open>status\<close> raises \<^verbatim>\<open>TypeError\<close>, whatever the index.
\<close>

theorem update_segment_index_error:
  "(update_segment i img aud vid now s = Inl (IndexError ''list index out of range'') \<longleftrightarrow>
      i < - int (length (segments (fst s))) \<or> int (length (segments (fst s))) \<le> i) \<and>
   (\<forall>e. update_segment i img aud vid now s = Inl e \<longrightarrow> e = IndexError ''list index out of range'') \<and>
   (\<forall>s'. update_segment i img aud vid now s = Inr s' \<longrightarrow>
      (let k = nat (if i < 0 then int (length (segments (fst s))) + i else i);
           old = segments (fst s) ! k
       in segments (fst s') = (segments (fst s))[k := old
            \<lparr>image_path := (if truthy_path img then img else image_path old),
             audio_path := (if truthy_path aud then aud else audio_path old),
             video_path := (if truthy_path vid then vid else video_path old)\<rparr>])) \<and>
   (''status'' \<in> fst ` set kwargs \<longrightarrow> (\<exists>m. call_update_segment i kwargs now s = Inl (TypeError m)))"
proof -
  have a: "update_segment i img aud vid now s = Inl (IndexError ''list index out of range'') \<longleftrightarrow>
      i < - int (length (segments (fst s))) \<or> int (length (segments (fst s))) \<le> i"
    by (simp add: update_segment_Inl)
  have b: "\<forall>e. update_segment i img aud vid now s = Inl e \<longrightarrow> e = IndexError ''list index out of range''"
    by (simp add: update_segment_Inl)
  have c: "\<forall>s'. update_segment i img aud vid now s = Inr s' \<longrightarrow>
      (let k = nat (if i < 0 then int (length (segments (fst s))) + i else i);
           old = segments (fst s) ! k
       in segments (fst s') = (segments (fst s))[k := old
            \<lparr>image_path := (if truthy_path img then img else image_path old),
             audio_path := (if truthy_path aud then aud else audio_path old),
             video_path := (if truthy_path vid then vid else video_path old)\<rparr>])"
  proof (intro allI impI)
    fix s' assume ok: "update_segment i img aud vid now s = Inr s'"
    have "\<not> (i < - int (length (segments (fst s))) \<or> int (length (segments (fst s))) \<le> i)"
      using ok a by auto
    then have lo: "- int (length (segments (fst s))) \<le> i" and hi: "i < int (length (segments (fst s)))"
      by auto
    from update_segment_in_range [OF lo hi, of img aud vid now] ok
    show "let k = nat (if i < 0 then int (length (segments (fst s))) + i else i);
           old = segments (fst s) ! k
       in segments (fst s') = (segments (fst s))[k := old
            \<lparr>image_path := (if truthy_path img then img else image_path old),
             audio_path := (if truthy_path aud then aud else audio_path old),
             video_path := (if truthy_path vid then vid else video_path old)\<rparr>]"
      by (auto simp: Let_def)
  qed
  have d: "''status'' \<in> fst ` set kwargs \<longrightarrow> (\<exists>m. call_update_segment i kwargs now s = Inl (TypeError m))"
    using call_update_segment_unknown [of "''status''" kwargs i now s]
    by (simp add: update_segment_params_def)
  from a b c d show ?thesis by blast
qed

text \<open>
  The claim as stated fails: with two segments started, index 0 is in range, and a partial
  update of the status does not succeed.
\<close>

theorem update_segment_status_counterexample:
  "call_update_segment 0 [(''status'', Some ''Completed'')] ''t2'' two_started =
     Inl (TypeError (''ExperimentTracker.update_segment() got an unexpected keyword argument '' @
       [CHR 0x27] @ ''status'' @ [CHR 0x27])) \<and>
   0 < length (segments (fst two_started))"
  by (simp add: call_update_segment_def update_segment_params_def two_started_tracker)

theorem update_segment_index_error_witness:
  "update_segment 2 (Some ''temp/image_0.png'') None None ''t2'' two_started =
     Inl (IndexError ''list index out of range'') \<and>
   (\<exists>s'. update_segment (- 2) (Some ''temp/image_0.png'') None None ''t2'' two_started = Inr s' \<and>
      image_path (segments (fst s') ! 0) = Some ''temp/image_0.png'') \<and>
   (\<exists>m. call_update_segment 0 [(''status'', Some ''Completed'')] ''t2'' two_started = Inl (TypeError m))"
proof -
  have len: "length (segments (fst two_started)) = 2" by (simp add: two_started_tracker)
  have st: "''status'' \<in> fst ` set [(''status'', Some ''Completed'')]" by simp
  note hi = update_segment_index_error [of 2 "Some ''temp/image_0.png''" None None "''t2''" two_started]
  note lo = update_segment_index_error [of "- 2" "Some ''temp/image_0.png''" None None "''t2''"
       two_started]
  note ty = update_segment_index_error [of 0 None None None "''t2''" two_started
       "[(''status'', Some ''Completed'')]"]
  have one: "update_segment 2 (Some ''temp/image_0.png'') None None ''t2'' two_started =
     Inl (IndexError ''list index out of range'')"
    using hi [THEN conjunct1] len by simp
  have ne: "update_segment (- 2) (Some ''temp/image_0.png'') None None ''t2'' two_started \<noteq>
     Inl (IndexError ''list index out of range'')"
    using lo [THEN conjunct1] len by simp
  have "\<And>e. update_segment (- 2) (Some ''temp/image_0.png'') None None ''t2'' two_started \<noteq> Inl e"
    using lo [THEN conjunct2, THEN conjunct1] ne by blast
  then obtain s' where ok: "update_segment (- 2) (Some ''temp/image_0.png'') None None ''t2'' two_started = Inr s'"
    by (cases "update_segment (- 2) (Some ''temp/image_0.png'') None None ''t2'' two_started") auto
  have two: "image_path (segments (fst s') ! 0) = Some ''temp/image_0.png''"
    using lo [THEN conjunct2, THEN conjunct2, THEN conjunct1] ok len
    by (simp add: Let_def truthy_path_def)
  have three: "\<exists>m. call_update_segment 0 [(''status'', Some ''Completed'')] ''t2'' two_started = Inl (TypeError m)"
    using ty [THEN conjunct2, THEN conjunct2, THEN conjunct2] st by blast
  from one ok two three show ?thesis by blast
qed

text \<open>
  Claim C4, amended. Saving does not change the run state, and two saves in a row write
  the same run id and the same segment data and leave the other files alone. Each write
  stamps \<^verbatim>\<open>state.json\<close> with the current time, so the durable state after the second
  save equals the one after the first exactly when the two clock readings are equal.
\<close>

theorem save_twice:
  "fst (save_experiment now1 now1' s) = fst s \<and>
   state_json (snd (save_experiment now1 now1' s)) = Some (PyDict
     [(''run_id'', PyStr (run_id (fst s))), (''timestamp'', PyStr now1),
      (''segments'', PyList (map segment_dict (segments (fst s))))]) \<and>
   state_json (snd (save_experiment now2 now2' (save_experiment now1 now1' s))) = Some (PyDict
     [(''run_id'', PyStr (run_id (fst s))), (''timestamp'', PyStr now2),
      (''segments'', PyList (map segment_dict (segments (fst s))))]) \<and>
   errors_json (snd (save_experiment now1 now1' s)) = errors_json (snd s) \<and>
   metrics_json (snd (save_experiment now1 now1' s)) = metrics_json (snd s) \<and>
   (durable (snd (save_experiment now2 now2' (save_experiment now1 now1' s))) =
    durable (snd (save_experiment now1 now1' s)) \<longleftrightarrow> now2 = now1)"
  by (simp add: save_experiment_def save_local_state_def wandb_emit_def durable_def Let_def)

text \<open>
  The claim as stated fails: two saves two microseconds apart, with no mutation between
  them, leave different durable states.
\<close>

theorem save_twice_counterexample:
  "durable (snd (save_experiment ''2024-01-01T12:00:07.000002'' ''2024-01-01T12:00:07.000003''
             (save_experiment ''2024-01-01T12:00:07.000000'' ''2024-01-01T12:00:07.000001'' two_started)))
   \<noteq> durable (snd (save_experiment ''2024-01-01T12:00:07.000000'' ''2024-01-01T12:00:07.000001''
             two_started))"
  by (simp add: save_experiment_def save_local_state_def wandb_emit_def durable_def Let_def)

theorem save_twice_witness:
  "durable (snd (save_experiment ''2024-01-01T12:00:07'' ''2024-01-01T12:00:08''
             (save_experiment ''2024-01-01T12:00:07'' ''2024-01-01T12:00:07'' two_started)))
   = durable (snd (save_experiment ''2024-01-01T12:00:07'' ''2024-01-01T12:00:07'' two_started))"
  using save_twice [of "''2024-01-01T12:00:07''" "''2024-01-01T12:00:07''" two_started
      "''2024-01-01T12:00:07''" "''2024-01-01T12:00:08''"]
  by simp






section \<open>Properties of the segmenter\<close>

lemma dropWhile_all: "(\<forall>x \<in> set (dropWhile P s). P x) \<longleftrightarrow> dropWhile P s = []"
proof (cases "dropWhile P s")
  case Nil
  then show ?thesis by (simp del: dropWhile_eq_Nil_conv)
next
  case (Cons a as)
  with hd_dropWhile [of P s] have "\<not> P a" by (simp del: dropWhile_eq_Nil_conv)
  with Cons show ?thesis by (auto simp del: dropWhile_eq_Nil_conv)
qed

lemma strip_Nil_iff: "strip s = [] \<longleftrightarrow> (\<forall>c \<in> set s. is_space c)"
proof -
  have "strip s = [] \<longleftrightarrow> (\<forall>x \<in> set (dropWhile is_space s). is_space x)"
    by (simp add: strip_def)
  also have "\<dots> \<longleftrightarrow> dropWhile is_space s = []"
    by (rule dropWhile_all)
  also have "\<dots> \<longleftrightarrow> (\<forall>c \<in> set s. is_space c)"
    by simp
  finally show ?thesis .
qed











section \<open>Properties of the orchestrator\<close>

lemma process_documents_client:
  "fst (process_documents sv fs w) = Inr segs \<Longrightarrow> \<exists>c. openai_client sv = Inr c"
  by (cases "openai_client sv") (auto simp: process_documents_def)

lemma process_documents_tracker:
  "tracker (snd (process_documents sv fs w)) = tracker w \<and>
   image_requests (snd (process_documents sv fs w)) = image_requests w \<and>
   voice_requests (snd (process_documents sv fs w)) = voice_requests w \<and>
   renders (snd (process_documents sv fs w)) = renders w"
  by (auto simp: process_documents_def Let_def split: sum.splits)

lemma segment_body_prompt_fails:
  assumes "chat sv (length (chat_requests w)) = Inl e" and "openai_client sv = Inr cl"
  shows "segment_body sv c v i seg w =
     (Inl e, w\<lparr>tracker := snd (start_segment seg [] (clock sv (clock_reads w)) (tracker w)),
               clock_reads := Suc (clock_reads w),
               chat_requests := chat_requests w @ [sd_prompt_message seg]\<rparr>)"
  using assms
  by (simp add: segment_body_def Let_def and_then_def and_then_do_def AsyncOpenAI_def
        generate_sd_prompts_def tracker_start_segment_def chat_def)

lemma closing_has_error:
  "has_error (fst (tracker (tracker_finish sv (tracker_save_experiment sv
      (tracker_log_error sv m w))))) = True"
  by (simp add: tracker_finish_def tracker_save_experiment_def tracker_log_error_def
        finish_def cleanup_def save_experiment_def log_error_def Let_def)

lemma closing_segments:
  "segments (fst (tracker (tracker_finish sv (tracker_save_experiment sv
      (tracker_log_error sv m w))))) = segments (fst (tracker w))"
  by (simp add: tracker_finish_def tracker_save_experiment_def tracker_log_error_def
        finish_def cleanup_def save_experiment_def log_error_def Let_def)

lemma closing_requests:
  "chat_requests (tracker_finish sv (tracker_save_experiment sv (tracker_log_error sv m w))) =
     chat_requests w \<and>
   image_requests (tracker_finish sv (tracker_save_experiment sv (tracker_log_error sv m w))) =
     image_requests w \<and>
   voice_requests (tracker_finish sv (tracker_save_experiment sv (tracker_log_error sv m w))) =
     voice_requests w \<and>
   renders (tracker_finish sv (tracker_save_experiment sv (tracker_log_error sv m w))) =
     renders w"
  by (simp add: tracker_finish_def tracker_save_experiment_def tracker_log_error_def)

text \<open>
  Claim C1, amended. In a run in which segmentation succeeds, a failure of the prompt
  request for the first segment is not isolated: it ends the loop. The run continues with
  the \<^verbatim>\<open>except\<close> clause in the state the failed request left, in which the first segment
  is started and nothing else was done for any segment; the error is logged, \<open>has_error\<close>
  is true when \<^verbatim>\<open>main\<close> returns, the first segment is the only one the run started, and
  no image, voice or render request was made.
\<close>

theorem prompt_failure_ends_loop:
  assumes uploads: "save_uploads sv = None"
    and segmented: "fst (process_documents sv file_paths w) = Inr (seg # post)"
    and fails: "chat sv (length (chat_requests (snd (process_documents sv file_paths w)))) = Inl e"
  shows "main sv file_paths c v w =
           tracker_finish sv (tracker_save_experiment sv
             (tracker_log_error sv (''An error occurred: '' @ py_str e)
               ((snd (process_documents sv file_paths w))
                  \<lparr>tracker := snd (start_segment seg []
                       (clock sv (clock_reads (snd (process_documents sv file_paths w))))
                       (tracker (snd (process_documents sv file_paths w)))),
                   clock_reads := Suc (clock_reads (snd (process_documents sv file_paths w))),
                   chat_requests := chat_requests (snd (process_documents sv file_paths w)) @
                                    [sd_prompt_message seg]\<rparr>))) \<and>
         has_error (fst (tracker (main sv file_paths c v w))) \<and>
         map seg_text (segments (fst (tracker (main sv file_paths c v w)))) =
           map seg_text (segments (fst (tracker w))) @ [seg] \<and>
         image_requests (main sv file_paths c v w) = image_requests w \<and>
         voice_requests (main sv file_paths c v w) = voice_requests w \<and>
         renders (main sv file_paths c v w) = renders w"
proof -
  let ?w1 = "snd (process_documents sv file_paths w)"
  let ?w2 = "?w1\<lparr>tracker := snd (start_segment seg [] (clock sv (clock_reads ?w1)) (tracker ?w1)),
                  clock_reads := Suc (clock_reads ?w1),
                  chat_requests := chat_requests ?w1 @ [sd_prompt_message seg]\<rparr>"
  from process_documents_client [OF segmented] obtain cl where cl: "openai_client sv = Inr cl"
    by blast
  have body: "segment_body sv c v 0 seg ?w1 = (Inl e, ?w2)"
    by (rule segment_body_prompt_fails [OF fails cl])
  have loop: "segment_loop sv c v 0 (seg # post) None ?w1 = (Inl e, ?w2)"
    by (simp add: body Let_def)
  have tried: "main_try sv file_paths c v w = (Inl e, ?w2)"
    using uploads segmented loop
    by (simp add: main_try_def and_then_def and_then_do_def)
  have m: "main sv file_paths c v w =
     tracker_finish sv (tracker_save_experiment sv
       (tracker_log_error sv (''An error occurred: '' @ py_str e) ?w2))"
    by (simp add: main_def tried Let_def)
  have texts: "map seg_text (segments (fst (tracker ?w2))) =
      map seg_text (segments (fst (tracker w))) @ [seg]"
    by (simp add: start_segment_def Let_def process_documents_tracker)
  have reqs: "image_requests ?w2 = image_requests w" "voice_requests ?w2 = voice_requests w"
      "renders ?w2 = renders w"
    by (simp_all add: process_documents_tracker)
  show ?thesis
    unfolding m using texts reqs
    by (simp add: closing_has_error closing_segments closing_requests)
qed

lemma failing_chat:
  "chat failing_services k = (if k = 0 then Inr two_paragraphs else Inl (OSError ''Connection error.''))"
  by (simp add: failing_services_def chat_def)

lemma failing_uploads: "save_uploads failing_services = None"
  by (simp add: failing_services_def example_services_def)

lemma fresh_segments: "map seg_text (segments (fst (tracker fresh_world))) = []"
  by (simp add: fresh_world_def init_def)

lemma failing_segmented:
  "fst (process_documents failing_services [case_file] fresh_world) =
     Inr (''seg a'' # ''seg b'' # replicate 8 placeholder)"
proof -
  have c: "candidates two_paragraphs = [''seg a'', ''seg b'']"
    by (simp add: candidates_def strip_def is_space_def two_paragraphs_def)
  have nonblank: "strip (''story'' @ [CHR 0x0A, CHR 0x0A]) \<noteq> []"
    by (simp add: strip_def is_space_def)
  show ?thesis
    using nonblank
    by (simp add: process_documents_def case_file_def failing_services_def fresh_world_def
          parse_reply_def c Let_def numeral_eq_Suc)
qed

lemma failing_world:
  "snd (process_documents failing_services [case_file] fresh_world) =
     fresh_world\<lparr>chat_requests :=
       [''Create 10 one-minute segments from this story: '' @ ''story'' @ [CHR 0x0A, CHR 0x0A]]\<rparr>"
proof -
  have nonblank: "strip (''story'' @ [CHR 0x0A, CHR 0x0A]) \<noteq> []"
    by (simp add: strip_def is_space_def)
  show ?thesis
    using nonblank
    by (simp add: process_documents_def case_file_def fresh_world_def failing_services_def
          Let_def split: sum.splits)
qed

theorem prompt_failure_ends_loop_witness:
  "has_error (fst (tracker (main failing_services [case_file] ''temp/reference.png''
      ''21m00Tcm4TlvDq8ikWAM'' fresh_world))) \<and>
   map seg_text (segments (fst (tracker (main failing_services [case_file] ''temp/reference.png''
      ''21m00Tcm4TlvDq8ikWAM'' fresh_world)))) = [''seg a'']"
proof -
  have fails: "chat failing_services
      (length (chat_requests (snd (process_documents failing_services [case_file] fresh_world)))) =
      Inl (OSError ''Connection error.'')"
    by (simp add: failing_world failing_chat)
  from prompt_failure_ends_loop [OF failing_uploads failing_segmented fails, THEN conjunct2]
    fresh_segments
  show ?thesis by simp
qed

text \<open>
  The claim as stated fails: the segmenter returns ten segments, the prompt request for
  the first one fails, and the run ends with that segment as the only one started; no
  request is made for any other segment.
\<close>

theorem failure_isolation_counterexample:
  "fst (process_documents failing_services [case_file] fresh_world) =
     Inr (''seg a'' # ''seg b'' # replicate 8 placeholder) \<and>
   chat failing_services 1 = Inl (OSError ''Connection error.'') \<and>
   map seg_text (segments (fst (tracker (main failing_services [case_file] ''temp/reference.png''
      ''21m00Tcm4TlvDq8ikWAM'' fresh_world)))) = [''seg a''] \<and>
   chat_requests (main failing_services [case_file] ''temp/reference.png''
      ''21m00Tcm4TlvDq8ikWAM'' fresh_world) =
     [''Create 10 one-minute segments from this story: '' @ ''story'' @ [CHR 0x0A, CHR 0x0A],
      sd_prompt_message ''seg a'']"
proof -
  have cl: "openai_client failing_services =
      Inr (\<lambda>k. if k = 0 then Inr two_paragraphs else Inl (OSError ''Connection error.''))"
    by (simp add: failing_services_def)
  have fails: "chat failing_services
      (length (chat_requests (snd (process_documents failing_services [case_file] fresh_world)))) =
      Inl (OSError ''Connection error.'')"
    by (simp add: failing_world failing_chat)
  have body: "segment_body failing_services ''temp/reference.png'' ''21m00Tcm4TlvDq8ikWAM'' 0 ''seg a''
       (snd (process_documents failing_services [case_file] fresh_world)) =
     (Inl (OSError ''Connection error.''),
      (snd (process_documents failing_services [case_file] fresh_world))
        \<lparr>tracker := snd (start_segment ''seg a'' []
            (clock failing_services (clock_reads (snd (process_documents failing_services [case_file] fresh_world))))
            (tracker (snd (process_documents failing_services [case_file] fresh_world)))),
         clock_reads := Suc (clock_reads (snd (process_documents failing_services [case_file] fresh_world))),
         chat_requests := chat_requests (snd (process_documents failing_services [case_file] fresh_world)) @
            [sd_prompt_message ''seg a'']\<rparr>)"
    by (rule segment_body_prompt_fails [OF fails cl])
  have tried: "main_try failing_services [case_file] ''temp/reference.png'' ''21m00Tcm4TlvDq8ikWAM'' fresh_world =
     (Inl (OSError ''Connection error.''),
      (snd (process_documents failing_services [case_file] fresh_world))
        \<lparr>tracker := snd (start_segment ''seg a'' []
            (clock failing_services (clock_reads (snd (process_documents failing_services [case_file] fresh_world))))
            (tracker (snd (process_documents failing_services [case_file] fresh_world)))),
         clock_reads := Suc (clock_reads (snd (process_documents failing_services [case_file] fresh_world))),
         chat_requests := chat_requests (snd (process_documents failing_services [case_file] fresh_world)) @
            [sd_prompt_message ''seg a'']\<rparr>)"
    using failing_segmented
    by (simp add: main_try_def and_then_def and_then_do_def failing_uploads body Let_def)
  have a: "map seg_text (segments (fst (tracker (main failing_services [case_file] ''temp/reference.png''
      ''21m00Tcm4TlvDq8ikWAM'' fresh_world)))) = [''seg a'']"
    using fresh_segments
    by (simp add: main_def tried Let_def closing_segments start_segment_def process_documents_tracker)
  have b: "chat_requests (main failing_services [case_file] ''temp/reference.png''
      ''21m00Tcm4TlvDq8ikWAM'' fresh_world) =
     [''Create 10 one-minute segments from this story: '' @ ''story'' @ [CHR 0x0A, CHR 0x0A],
      sd_prompt_message ''seg a'']"
    by (simp add: main_def tried Let_def closing_requests failing_world)
  from failing_segmented failing_chat [of 1] a b show ?thesis by simp
qed


section \<open>Properties of the image generator\<close>















end
